theory Spec2Isabelle
  imports Main
begin

section \<open>JavaScript array and string primitives used by the installer\<close>

text \<open>
  \<^verbatim>\<open>Array.prototype.findIndex\<close>: the index of the first element satisfying the
  predicate, or \<open>-1\<close> when there is none. \<^verbatim>\<open>String.prototype.indexOf\<close> with a
  one-character needle is the same search on the characters of the string.
\<close>

fun findIndex :: "('a \<Rightarrow> bool) \<Rightarrow> 'a list \<Rightarrow> int" where
  "findIndex p [] = - 1"
| "findIndex p (x # xs) =
     (if p x then 0
      else (let i = findIndex p xs in if i < 0 then - 1 else i + 1))"

definition indexOf :: "string \<Rightarrow> char \<Rightarrow> int" where
  "indexOf s c = findIndex (\<lambda>x. x = c) s"

text \<open>\<^verbatim>\<open>s.substr(from)\<close> for a non-negative \<open>from\<close>: the rest of the string.\<close>

definition substr :: "string \<Rightarrow> int \<Rightarrow> string" where
  "substr s from = drop (nat from) s"

text \<open>
  \<^verbatim>\<open>xs.splice(start)\<close>, called with the start index alone: a negative start counts
  from the end, and every element from the start to the end of the array is deleted.
  The value is the array as it is left.
\<close>

definition spliceFrom :: "'a list \<Rightarrow> int \<Rightarrow> 'a list" where
  "spliceFrom xs start =
     (let len = int (length xs);
          actualStart = (if start < 0 then max (len + start) 0 else min start len)
      in take (nat actualStart) xs)"

section \<open>ArchiveReader: the entry name after stripping\<close>

text \<open>
  \<^verbatim>\<open>getFileName(entryName, virtualPath)\<close>. The first statement of the source stores
  \<^verbatim>\<open>entryName.replace(/^\/+/, '')\<close> in \<^verbatim>\<open>parsedEntryName\<close>, a variable that is
  never read; the loop and the return work on \<open>entryName\<close> itself. The loop runs
  \<open>virtualPath\<close> times, so the model recurses on the number of rounds left;
  \<^verbatim>\<open>null\<close> is \<open>None\<close>.
\<close>

fun getFileName :: "string \<Rightarrow> nat \<Rightarrow> string option" where
  "getFileName entryName 0 = Some entryName"
| "getFileName entryName (Suc t) =
     (let index = indexOf entryName (CHR ''/'')
      in if index = - 1 then None
         else getFileName (substr entryName (index + 1)) t)"

text \<open>
  The path stripping rule in the words of the specification, for comparison: remove the
  leading slashes, then remove exactly the first \<open>stripN\<close> components delimited by
  \<open>/\<close>; a name with fewer components is unmatched.
\<close>

fun components :: "string \<Rightarrow> string list" where
  "components [] = [[]]"
| "components (c # cs) =
     (if c = CHR ''/'' then [] # components cs
      else (case components cs of
              [] \<Rightarrow> [[c]]
            | w # ws \<Rightarrow> (c # w) # ws))"

fun joinSlash :: "string list \<Rightarrow> string" where
  "joinSlash [] = []"
| "joinSlash [w] = w"
| "joinSlash (w # ws) = w @ CHR ''/'' # joinSlash ws"

definition strippedName_spec :: "string \<Rightarrow> nat \<Rightarrow> string option" where
  "strippedName_spec entryName stripN =
     (let cs = components (dropWhile (\<lambda>c. c = CHR ''/'') entryName)
      in if length cs < stripN then None else Some (joinSlash (drop stripN cs)))"

section \<open>TreeOptimizer\<close>

text \<open>
  A resolved node: \<^verbatim>\<open>{ name, reference, dependencies }\<close>. The root of the tree is the
  project itself; its reference is absent, which the code only ever tests for
  truthiness, so it is the empty string here.
\<close>

datatype pkg = Pkg (name: string) (reference: string) (dependencies: "pkg list")

definition setDependencies :: "pkg \<Rightarrow> pkg list \<Rightarrow> pkg" where
  "setDependencies p ds = Pkg (name p) (reference p) ds"

text \<open>
  The body of the inner loop of \<^verbatim>\<open>optimizePackageTree\<close>, for the grandchild
  \<open>subDependency\<close> of the child at index \<open>i\<close>. The state is the array
  \<open>dependencies\<close> of the current node; the child \<open>hardDependency\<close> is the object at
  index \<open>i\<close> of it (the outer loop walks a copy of the array, whose first elements are
  the same objects, and elements are only ever pushed at the end). The array
  \<open>hardDependency.dependencies\<close> was built by the recursive call for this child alone,
  so mutating it changes nothing else.
\<close>

definition hoistSubDependency :: "nat \<Rightarrow> pkg \<Rightarrow> pkg list \<Rightarrow> pkg list" where
  "hoistSubDependency i subDependency deps =
     (let availableDependency =
            find (\<lambda>dependency. name dependency = name subDependency) deps;
          deps1 = (if availableDependency = None then deps @ [subDependency] else deps)
      in if (case availableDependency of
               None \<Rightarrow> True
             | Some a \<Rightarrow> reference a = reference subDependency)
         then (let hardDependency = deps1 ! i
               in deps1[i := setDependencies hardDependency
                    (spliceFrom (dependencies hardDependency)
                       (findIndex (\<lambda>dependency. name dependency = name subDependency)
                          (dependencies hardDependency)))])
         else deps1)"

text \<open>
  The inner loop walks a copy of \<open>hardDependency.dependencies\<close> taken when it starts;
  the outer loop walks a copy of \<open>dependencies\<close> taken when it starts, that is the
  indices below the length at that moment.
\<close>

definition hoistHardDependency :: "nat \<Rightarrow> pkg list \<Rightarrow> pkg list" where
  "hoistHardDependency i deps = fold (hoistSubDependency i) (dependencies (deps ! i)) deps"

definition hoistAll :: "pkg list \<Rightarrow> pkg list" where
  "hoistAll deps = fold hoistHardDependency [0..<length deps] deps"

fun optimizePackageTree :: "pkg \<Rightarrow> pkg" where
  "optimizePackageTree (Pkg n r ds) = Pkg n r (hoistAll (map optimizePackageTree ds))"

text \<open>Sibling names are pairwise distinct at every node of the tree.\<close>

fun distinctNames :: "pkg \<Rightarrow> bool" where
  "distinctNames (Pkg n r ds) = (distinct (map name ds) \<and> (\<forall>d \<in> set ds. distinctNames d))"

text \<open>The same for a list of siblings: the invariant of the two loops.\<close>

definition siblingsOk :: "pkg list \<Rightarrow> bool" where
  "siblingsOk ds = (distinct (map name ds) \<and> (\<forall>d \<in> set ds. distinctNames d))"

section \<open>Collaborators and effects\<close>

text \<open>A dependency descriptor \<^verbatim>\<open>{ name, reference }\<close>.\<close>

type_synonym descriptor = "string \<times> string"


text \<open>
  Errors: \<^verbatim>\<open>new Error(message)\<close> as the program throws it, the \<^verbatim>\<open>ReferenceError\<close> of
  an identifier that is bound nowhere, and the failures of the collaborators (network,
  file system, decoders, JSON, subprocesses), whose text is theirs.
\<close>

datatype error = Error string | ReferenceError string | Failure string

text \<open>\<^verbatim>\<open>"${s}"\<close> inside a template literal.\<close>

definition quoted :: "string \<Rightarrow> string" where
  "quoted s = CHR 0x22 # s @ [CHR 0x22]"

text \<open>
  The \<^verbatim>\<open>semver\<close> library is a parameter. \<^verbatim>\<open>valid\<close> and \<^verbatim>\<open>validRange\<close> return a
  string or \<^verbatim>\<open>null\<close> and are only tested for truthiness; \<^verbatim>\<open>maxSatisfying\<close> returns a
  version of the list or \<^verbatim>\<open>null\<close>.
\<close>

record semver =
  valid :: "string \<Rightarrow> bool"
  validRange :: "string \<Rightarrow> bool"
  satisfies :: "string \<Rightarrow> string \<Rightarrow> bool"
  maxSatisfying :: "string list \<Rightarrow> string \<Rightarrow> string option"

text \<open>
  \<^verbatim>\<open>semver.satisfies(version, range)\<close> where the version may be \<^verbatim>\<open>undefined\<close> (a name
  that the available map does not hold): the library answers \<^verbatim>\<open>false\<close> for a version
  that is not given.
\<close>

definition semver_satisfies :: "semver \<Rightarrow> string option \<Rightarrow> string \<Rightarrow> bool" where
  "semver_satisfies sv version rng =
     (case version of None \<Rightarrow> False | Some v \<Rightarrow> satisfies sv v rng)"

text \<open>
  A response of \<^verbatim>\<open>node-fetch\<close>: \<open>ok\<close> says that the status is in 200..299, \<open>body\<close> is
  the payload. The fields of a parsed \<^verbatim>\<open>package.json\<close> that the program reads; an absent
  object is \<open>None\<close>, an object is the list of its entries in the order of
  \<^verbatim>\<open>Object.keys\<close>. The decoded archive is the sequence of its entries (header name and
  content), ending when the decoder finishes or when it raises an error.
\<close>

record response =
  ok :: bool
  body :: string

record manifest =
  manifest_name :: string
  manifest_reference :: string
  manifest_dependencies :: "(string \<times> string) list option"
  manifest_bin :: "(string \<times> string) list option"
  manifest_scripts :: "(string \<times> string) list option"

datatype archive = Finish | Broken error | Entry string string archive

datatype request = HttpGet string | ReadFile string

text \<open>
  The world outside the program, over a type \<open>'d\<close> of disk contents: the network
  (\<open>fetch\<close>), the JSON parser (\<open>json_versions\<close> is \<^verbatim>\<open>Object.keys(info.versions)\<close> of
  the parsed registry answer), \<^verbatim>\<open>gunzip-maybe\<close> piped into \<^verbatim>\<open>tar-stream\<close> (\<open>untar\<close>)
  or into \<^verbatim>\<open>tar-fs\<close> (\<open>tarFs_extract target map buffer\<close>), the file system, Node's
  \<^verbatim>\<open>require\<close> of a JSON file, \<^verbatim>\<open>path.resolve\<close>, the shell, and the process.
\<close>

record 'd world =
  fetch :: "string \<Rightarrow> error + response"
  json_versions :: "string \<Rightarrow> error + string list"
  JSON_parse :: "string \<Rightarrow> error + manifest"
  untar :: "string \<Rightarrow> archive"
  readFile :: "'d \<Rightarrow> string \<Rightarrow> error + string"
  tarFs_extract :: "string \<Rightarrow> (string \<Rightarrow> string option) \<Rightarrow> string \<Rightarrow> 'd \<Rightarrow> error option \<times> 'd"
  require_file :: "'d \<Rightarrow> string \<Rightarrow> error + manifest"
  path_resolve :: "string list \<Rightarrow> string"
  mkdirp :: "string \<Rightarrow> 'd \<Rightarrow> error option \<times> 'd"
  exec :: "string \<Rightarrow> string \<Rightarrow> string \<Rightarrow> 'd \<Rightarrow> error option \<times> 'd"
  env_PATH :: string
  process_cwd :: string

text \<open>
  What the program changes: the disk, the requests it has issued (in order), the two
  counters of the progress handle of the running phase, the module cache of
  \<^verbatim>\<open>require\<close>, and the lines written to the console.
\<close>

record 'd state =
  disk :: 'd
  requests :: "request list"
  paceTotal :: nat
  paceCurr :: nat
  modules :: "(string \<times> manifest) list"
  console :: "string list"

text \<open>
  An \<^verbatim>\<open>async\<close> function is a state transformer that ends with a value or with an error
  (the promise is fulfilled or rejected), or does not end (\<open>None\<close>). \<open>await\<close> runs the
  continuation on the value and passes a rejection on.
\<close>

type_synonym ('a, 'd) promise = "'d state \<Rightarrow> ((error + 'a) \<times> 'd state) option"

definition resolved :: "'a \<Rightarrow> ('a, 'd) promise" where
  "resolved x s = Some (Inr x, s)"

definition rejected :: "error \<Rightarrow> ('a, 'd) promise" where
  "rejected e s = Some (Inl e, s)"

definition settled :: "error + 'a \<Rightarrow> ('a, 'd) promise" where
  "settled r s = Some (r, s)"

definition await :: "('a, 'd) promise \<Rightarrow> ('a \<Rightarrow> ('b, 'd) promise) \<Rightarrow> ('b, 'd) promise" where
  "await m k s =
     (case m s of
        None \<Rightarrow> None
      | Some (Inl e, s') \<Rightarrow> Some (Inl e, s')
      | Some (Inr x, s') \<Rightarrow> k x s')"

definition diskOp :: "('d \<Rightarrow> error option \<times> 'd) \<Rightarrow> (unit, 'd) promise" where
  "diskOp f s =
     (case f (disk s) of
        (None, d) \<Rightarrow> Some (Inr (), s\<lparr>disk := d\<rparr>)
      | (Some e, d) \<Rightarrow> Some (Inl e, s\<lparr>disk := d\<rparr>))"

definition fetchUrl :: "'d world \<Rightarrow> string \<Rightarrow> (response, 'd) promise" where
  "fetchUrl w url s = Some (fetch w url, s\<lparr>requests := requests s @ [HttpGet url]\<rparr>)"

definition fs_readFile :: "'d world \<Rightarrow> string \<Rightarrow> (string, 'd) promise" where
  "fs_readFile w path s =
     Some (readFile w (disk s) path, s\<lparr>requests := requests s @ [ReadFile path]\<rparr>)"

definition consoleLog :: "string \<Rightarrow> (unit, 'd) promise" where
  "consoleLog line s = Some (Inr (), s\<lparr>console := console s @ [line]\<rparr>)"




section \<open>ArchiveReader\<close>





section \<open>Fetcher\<close>

definition startsWith :: "string \<Rightarrow> string \<Rightarrow> bool" where
  "startsWith s prefix = (take (length prefix) s = prefix)"

definition registryTarball :: "string \<Rightarrow> string \<Rightarrow> string" where
  "registryTarball nm ref =
     ''https://registry.yarnpkg.com/'' @ nm @ ''/-/'' @ nm @ ''-'' @ ref @ ''.tgz''"

definition fetchErrorMessage :: "string \<Rightarrow> string" where
  "fetchErrorMessage ref = ''Couldn't fetch package '' @ quoted ref"

text \<open>
  \<^verbatim>\<open>fetchPackage\<close> calls itself on the registry URL of an exact version; nothing in the
  program says that \<^verbatim>\<open>semver.valid\<close> rejects that URL, so the recursion is a partial
  function.
\<close>

partial_function (option) fetchPackage ::
  "semver \<Rightarrow> 'd world \<Rightarrow> descriptor \<Rightarrow> 'd state \<Rightarrow> ((error + string) \<times> 'd state) option" where
  "fetchPackage sv w d s =
     (case d of (nm, ref) \<Rightarrow>
        if list_ex (\<lambda>prefix. startsWith ref prefix) [''/'', ''./'', ''../'']
        then fs_readFile w ref s
        else if valid sv ref
        then fetchPackage sv w (nm, registryTarball nm ref) s
        else await (fetchUrl w ref)
               (\<lambda>response.
                  if \<not> ok response then rejected (Error (fetchErrorMessage ref))
                  else resolved (body response)) s)"

declare fetchPackage.simps [code]

section \<open>Resolver\<close>

definition unsatisfiedMessage :: "string \<Rightarrow> string \<Rightarrow> string" where
  "unsatisfiedMessage ref nm =
     ''Couldn't find a version matching '' @ quoted ref @ '' for package '' @ quoted nm"

definition getPinnedReference :: "semver \<Rightarrow> 'd world \<Rightarrow> descriptor \<Rightarrow> (descriptor, 'd) promise" where
  "getPinnedReference sv w d =
     (case d of (nm, ref) \<Rightarrow>
        if validRange sv ref \<and> \<not> valid sv ref
        then await (fetchUrl w (''https://registry.yarnpkg.com/'' @ nm))
               (\<lambda>response.
                  await (settled (json_versions w (body response)))
                    (\<lambda>versions.
                       case maxSatisfying sv versions ref of
                         None \<Rightarrow> rejected (Error (unsatisfiedMessage ref nm))
                       | Some v \<Rightarrow> resolved (nm, v)))
        else resolved (nm, ref))"


definition isVolatileDependency :: "semver \<Rightarrow> descriptor \<Rightarrow> (string \<rightharpoonup> string) \<Rightarrow> bool" where
  "isVolatileDependency sv volatileDependency available =
     (let availableReference = available (fst volatileDependency)
      in if availableReference = Some (snd volatileDependency) then False
         else if validRange sv (snd volatileDependency) \<and>
                 semver_satisfies sv availableReference (snd volatileDependency)
         then False
         else True)"

section \<open>Linker\<close>

text \<open>
  The loop over the entries of \<open>bin\<close>. The last statement of its body is
  \<^verbatim>\<open>await fs.symlink(relative(binTarget, source), dest)\<close>. The identifier \<open>relative\<close>
  is bound nowhere: the module binds \<open>fetch\<close>, \<open>semver\<close>, \<open>fs\<close>, \<open>cp\<close>, \<open>util\<close>,
  \<open>gunzipMaybe\<close>, \<open>Progress\<close>, \<open>tarFs\<close>, \<open>tar\<close>, \<open>path\<close>, \<open>exec\<close> and its own
  functions, and Node has no global of that name. Evaluating the argument raises a
  \<^verbatim>\<open>ReferenceError\<close> before \<^verbatim>\<open>fs.symlink\<close> is called, so the first round of the loop
  ends it.
\<close>

fun linkBins :: "'d world \<Rightarrow> string \<Rightarrow> string \<Rightarrow> (string \<times> string) list \<Rightarrow> (unit, 'd) promise" where
  "linkBins w cwd target [] = resolved ()"
| "linkBins w cwd target ((binName, binPath) # rest) =
     (let source = path_resolve w [target, binPath];
          dest = cwd @ ''/spm_node_modules/.bin'' @ ''/'' @ binName
      in await (consoleLog (''bin: '' @ dest)) (\<lambda>_.
         await (diskOp (mkdirp w (cwd @ ''/spm_node_modules/.bin''))) (\<lambda>_.
         rejected (ReferenceError ''relative is not defined''))))"



section \<open>Extraction\<close>





section \<open>Concurrent callbacks\<close>

text \<open>
  How a promise ends when other promises run beside it. A rejection of this program is
  never caught before the entry point, which ends the process at once; so a rejected
  promise has no state of its own, and it carries every error that one of the promises
  running together rejects with: which of them is first, and so is the one reported, is
  a matter of timing. A pending promise is one that is never settled.
\<close>

datatype ('a, 'd) outcome = Fulfilled 'a "'d state" | Rejected "error list" | Pending

type_synonym ('a, 'd) task = "'d state \<Rightarrow> ('a, 'd) outcome"

text \<open>A promise that runs alone, as a task.\<close>

definition started :: "('a, 'd) promise \<Rightarrow> ('a, 'd) task" where
  "started m s =
     (case m s of
        None \<Rightarrow> Pending
      | Some (Inl e, s') \<Rightarrow> Rejected [e]
      | Some (Inr x, s') \<Rightarrow> Fulfilled x s')"

definition fulfilled :: "'a \<Rightarrow> ('a, 'd) task" where
  "fulfilled x s = Fulfilled x s"

definition andThen :: "('a, 'd) task \<Rightarrow> ('a \<Rightarrow> ('b, 'd) task) \<Rightarrow> ('b, 'd) task" where
  "andThen m k s =
     (case m s of
        Fulfilled x s' \<Rightarrow> k x s'
      | Rejected es \<Rightarrow> Rejected es
      | Pending \<Rightarrow> Pending)"

text \<open>
  Two tasks started together, as \<^verbatim>\<open>Promise.all\<close> starts the callbacks of
  \<^verbatim>\<open>map(async ...)\<close>: both are started whatever the other does. They are fulfilled when
  both are, and the state then holds the effects of the first followed by those of the
  second. The order in which two running tasks issue their requests and write their
  files is not followed: in the run the second task issues its first request before the
  first has an answer, and the state lists the requests task by task. They are rejected
  as soon as one of them is, also when the other is never settled; the task beside a
  rejected or a pending one is started in the state before it, and the errors of two
  rejected tasks are listed together.
\<close>

definition both :: "('a, 'd) task \<Rightarrow> ('b, 'd) task \<Rightarrow> ('a \<times> 'b, 'd) task" where
  "both m n s =
     (case m s of
        Fulfilled x s1 \<Rightarrow>
          (case n s1 of
             Fulfilled y s2 \<Rightarrow> Fulfilled (x, y) s2
           | Rejected es \<Rightarrow> Rejected es
           | Pending \<Rightarrow> Pending)
      | Rejected es \<Rightarrow>
          (case n s of
             Fulfilled y s2 \<Rightarrow> Rejected es
           | Rejected es' \<Rightarrow> Rejected (es @ es')
           | Pending \<Rightarrow> Rejected es)
      | Pending \<Rightarrow>
          (case n s of
             Fulfilled y s2 \<Rightarrow> Pending
           | Rejected es' \<Rightarrow> Rejected es'
           | Pending \<Rightarrow> Pending))"

fun promiseAll :: "('a, 'd) task list \<Rightarrow> ('a list, 'd) task" where
  "promiseAll [] = fulfilled []"
| "promiseAll (m # ms) = andThen (both m (promiseAll ms)) (\<lambda>(x, xs). fulfilled (x # xs))"

section \<open>The dependency tree\<close>


section \<open>Linking a tree\<close>




section \<open>The entry point\<close>






section \<open>Which calls a run makes\<close>

text \<open>
  The state in which the task started after \<open>m\<close> finds the program, as in \<open>both\<close>: the
  state that \<open>m\<close> leaves when it is fulfilled, the state before it otherwise.
\<close>

definition stateAfter :: "('a, 'd) task \<Rightarrow> 'd state \<Rightarrow> 'd state" where
  "stateAfter m s = (case m s of Fulfilled x s' \<Rightarrow> s' | Rejected es \<Rightarrow> s | Pending \<Rightarrow> s)"







section \<open>The layout that a run leaves\<close>

text \<open>
  Two states have the same layout when they agree on the disk, on the module cache and
  on the console; the requests issued and the progress counters may differ. A promise
  keeps the layout when every run of it ends in a state with the layout it started from;
  a task keeps it when every run that is fulfilled does.
\<close>

definition sameLayout :: "'d state \<Rightarrow> 'd state \<Rightarrow> bool" where
  "sameLayout s t = (disk s = disk t \<and> modules s = modules t \<and> console s = console t)"


definition keeps :: "('a, 'd) task \<Rightarrow> bool" where
  "keeps m = (\<forall>s x s'. m s = Fulfilled x s' \<longrightarrow> sameLayout s s')"





text \<open>
  How a run ends, without the state; and with the disk that a fulfilled run leaves.
\<close>

fun settles :: "('a, 'd) outcome \<Rightarrow> (error list + 'a) option" where
  "settles (Fulfilled x s) = Some (Inr x)"
| "settles (Rejected es) = Some (Inl es)"
| "settles Pending = None"


section \<open>A small world for running the model\<close>

text \<open>
  A version table that agrees with semantic versioning on the strings it lists: the
  versions \<open>1.0.0\<close> and \<open>1.1.0\<close>, and the ranges \<open>^1.0.0\<close> (both versions satisfy it)
  and \<open>^5.0.0\<close> (neither does).
\<close>

definition example_semver :: semver where
  "example_semver =
     \<lparr> valid = (\<lambda>v. v \<in> set [''1.0.0'', ''1.1.0'']),
       validRange = (\<lambda>r. r \<in> set [''1.0.0'', ''1.1.0'', ''^1.0.0'', ''^5.0.0'']),
       satisfies = (\<lambda>v r. v \<in> set [''1.0.0'', ''1.1.0''] \<and> (r = v \<or> r = ''^1.0.0'')),
       maxSatisfying = (\<lambda>vs r.
         if r = ''^1.0.0''
         then (if ''1.1.0'' \<in> set vs then Some ''1.1.0''
               else if ''1.0.0'' \<in> set vs then Some ''1.0.0'' else None)
         else if r \<in> set [''1.0.0'', ''1.1.0''] \<and> r \<in> set vs then Some r else None) \<rparr>"

text \<open>
  A registry with the packages \<open>a\<close> (1.0.0 depends on \<open>b@1.0.0\<close>; 1.1.0 depends on
  \<open>c@^5.0.0\<close>), \<open>b\<close> (1.0.0 depends on \<open>a@^1.0.0\<close>) and \<open>c\<close> (1.0.0 only, no
  dependencies), and two
  projects: \<open>/proj\<close> depends on \<open>a@1.0.0\<close>, \<open>/app\<close> on \<open>c@^5.0.0\<close>. The disk is the
  list of the files written, the newest first; a tarball is named by its payload.
\<close>

definition example_manifest :: "string \<Rightarrow> (string \<times> string) list \<Rightarrow> manifest" where
  "example_manifest nm deps =
     \<lparr> manifest_name = nm, manifest_reference = [],
       manifest_dependencies = Some deps, manifest_bin = None, manifest_scripts = None \<rparr>"

definition example_parse :: "string \<Rightarrow> error + manifest" where
  "example_parse text =
     (if text = ''json a 1.0.0'' then Inr (example_manifest ''a'' [(''b'', ''1.0.0'')])
      else if text = ''json a 1.1.0'' then Inr (example_manifest ''a'' [(''c'', ''^5.0.0'')])
      else if text = ''json b 1.0.0'' then Inr (example_manifest ''b'' [(''a'', ''^1.0.0'')])
      else if text = ''json c 1.0.0'' then Inr (example_manifest ''c'' [])
      else if text = ''json root'' then Inr (example_manifest ''root'' [(''a'', ''1.0.0'')])
      else if text = ''json app'' then Inr (example_manifest ''app'' [(''c'', ''^5.0.0'')])
      else Inl (Failure ''Unexpected token''))"

fun example_write :: "string \<Rightarrow> (string \<Rightarrow> string option) \<Rightarrow> archive \<Rightarrow>
    (string \<times> string) list \<Rightarrow> error option \<times> (string \<times> string) list" where
  "example_write target mapName Finish d = (None, d)"
| "example_write target mapName (Broken e) d = (Some e, d)"
| "example_write target mapName (Entry headerName content rest) d =
     (case mapName headerName of
        None \<Rightarrow> (Some (Failure ''path must be a string''), d)
      | Some n \<Rightarrow> example_write target mapName rest ((target @ ''/'' @ n, content) # d))"

definition example_world :: "(string \<times> string) list world" where
  "example_world =
     \<lparr> fetch = (\<lambda>url.
         if url = ''https://registry.yarnpkg.com/a'' then Inr \<lparr>ok = True, body = ''versions a''\<rparr>
         else if url = ''https://registry.yarnpkg.com/c'' then Inr \<lparr>ok = True, body = ''versions c''\<rparr>
         else if url = ''https://registry.yarnpkg.com/a/-/a-1.0.0.tgz''
           then Inr \<lparr>ok = True, body = ''tgz a 1.0.0''\<rparr>
         else if url = ''https://registry.yarnpkg.com/a/-/a-1.1.0.tgz''
           then Inr \<lparr>ok = True, body = ''tgz a 1.1.0''\<rparr>
         else if url = ''https://registry.yarnpkg.com/b/-/b-1.0.0.tgz''
           then Inr \<lparr>ok = True, body = ''tgz b 1.0.0''\<rparr>
         else if url = ''https://registry.yarnpkg.com/c/-/c-1.0.0.tgz''
           then Inr \<lparr>ok = True, body = ''tgz c 1.0.0''\<rparr>
         else Inr \<lparr>ok = False, body = ''Not Found''\<rparr>),
       json_versions = (\<lambda>text.
         if text = ''versions a'' then Inr [''1.0.0'', ''1.1.0'']
         else if text = ''versions c'' then Inr [''1.0.0'']
         else Inl (Failure ''Cannot convert undefined or null to object'')),
       JSON_parse = example_parse,
       untar = (\<lambda>buffer.
         if take 4 buffer = ''tgz ''
         then Entry ''package/package.json'' (''json '' @ drop 4 buffer)
                (Entry ''package/index.js'' ''module.exports = 1'' Finish)
         else Broken (Failure ''Unexpected end of data'')),
       readFile = (\<lambda>d path.
         case map_of d path of
           None \<Rightarrow> Inl (Failure ''ENOENT'')
         | Some content \<Rightarrow> Inr content),
       tarFs_extract = (\<lambda>target mapName buffer d.
         example_write target mapName
           (if take 4 buffer = ''tgz ''
            then Entry ''package/package.json'' (''json '' @ drop 4 buffer)
                   (Entry ''package/index.js'' ''module.exports = 1'' Finish)
            else Broken (Failure ''Unexpected end of data'')) d),
       require_file = (\<lambda>d path.
         case map_of d path of
           None \<Rightarrow> Inl (Failure ''Cannot find module'')
         | Some content \<Rightarrow> example_parse content),
       path_resolve = (\<lambda>parts. case parts of [] \<Rightarrow> ''/proj'' | p # ps \<Rightarrow> foldl (\<lambda>a b. a @ ''/'' @ b) p ps),
       mkdirp = (\<lambda>path d. (None, d)),
       exec = (\<lambda>script cwd pathVar d. (None, d)),
       env_PATH = ''/usr/bin'',
       process_cwd = ''/proj'' \<rparr>"

definition example_state :: "(string \<times> string) list state" where
  "example_state =
     \<lparr> disk = [(''/proj/spm-package.json'', ''json root''),
               (''/app/spm-package.json'', ''json app''),
               (''./local.tgz'', ''tgz b 1.0.0'')],
       requests = [], paceTotal = 1, paceCurr = 0, modules = [], console = [] \<rparr>"


section \<open>Path stripping: the name that is matched and materialized\<close>

text \<open>
  A leading slash is not removed: it ends an empty first component, so each round of the
  loop takes one leading slash away and nothing else.
\<close>

lemma getFileName_leading_slash:
  "getFileName (CHR ''/'' # rest) (Suc t) = getFileName rest t"
  by (simp add: indexOf_def substr_def)

lemma getFileName_nothing_to_strip: "getFileName entryName 0 = Some entryName"
  by simp

text \<open>
  C1. Both \<^verbatim>\<open>readFileFromArchive\<close> (which compares the value with the requested
  file name) and \<^verbatim>\<open>extractArchiveTo\<close> (whose \<open>map\<close> stores the value in the header)
  use \<open>getFileName\<close>. It does not remove leading slashes: each leading slash counts as
  the end of an empty component. For the header name \<open>/package/package.json\<close> and one
  component to strip the code yields \<open>package/package.json\<close>, where the stripping rule
  yields \<open>package.json\<close>; with nothing to strip, \<open>/a\<close> stays \<open>/a\<close> instead of
  becoming \<open>a\<close>.
\<close>

theorem getFileName_keeps_leading_slashes:
  "getFileName ''/package/package.json'' 1 = Some ''package/package.json'' \<and>
   strippedName_spec ''/package/package.json'' 1 = Some ''package.json'' \<and>
   getFileName ''/a'' 0 = Some ''/a'' \<and>
   strippedName_spec ''/a'' 0 = Some ''a''"
  by (simp add: indexOf_def substr_def strippedName_spec_def)

section \<open>The tree optimizer\<close>

text \<open>
  C2. When a grandchild is hoisted or subsumed, the code calls \<^verbatim>\<open>splice\<close> with the index
  found by name and no delete count, which deletes that entry and every entry after it.
  Here the child \<open>a\<close> depends on \<open>c@1\<close> and \<open>d@1\<close>, and the root already has \<open>d@2\<close>:
  hoisting \<open>c@1\<close> empties the list of \<open>a\<close>, so \<open>d@1\<close>, which conflicts with
  \<open>d@2\<close> and has to stay below \<open>a\<close>, is lost.
\<close>

theorem optimizePackageTree_splice_drops_later_entries:
  "optimizePackageTree
     (Pkg ''root'' '''' [Pkg ''a'' ''1'' [Pkg ''c'' ''1'' [], Pkg ''d'' ''1'' []], Pkg ''d'' ''2'' []])
   = Pkg ''root'' '''' [Pkg ''a'' ''1'' [], Pkg ''d'' ''2'' [], Pkg ''c'' ''1'' []]"
  by (simp add: hoistAll_def hoistHardDependency_def hoistSubDependency_def spliceFrom_def
      setDependencies_def upt_rec)

subsection \<open>Sibling names stay distinct\<close>

lemma distinctNames_iff: "distinctNames p = siblingsOk (dependencies p)"
  by (cases p) (simp add: siblingsOk_def)

lemma name_setDependencies [simp]: "name (setDependencies p ds) = name p"
  by (simp add: setDependencies_def)

lemma dependencies_setDependencies [simp]: "dependencies (setDependencies p ds) = ds"
  by (simp add: setDependencies_def)

lemma siblingsOk_take: "siblingsOk ds \<Longrightarrow> siblingsOk (take k ds)"
  unfolding siblingsOk_def
  by (auto simp: take_map [symmetric] dest: in_set_takeD)

lemma siblingsOk_spliceFrom: "siblingsOk ds \<Longrightarrow> siblingsOk (spliceFrom ds start)"
  by (simp add: spliceFrom_def Let_def siblingsOk_take)

lemma find_None_name: "find (\<lambda>d. name d = n) ds = None \<Longrightarrow> n \<notin> name ` set ds"
  by (auto simp: find_None_iff)

lemma siblingsOk_snoc:
  "siblingsOk ds \<Longrightarrow> distinctNames s \<Longrightarrow> name s \<notin> name ` set ds \<Longrightarrow> siblingsOk (ds @ [s])"
  by (auto simp: siblingsOk_def)

lemma siblingsOk_update:
  assumes "siblingsOk ds" "i < length ds" "name q = name (ds ! i)" "distinctNames q"
  shows "siblingsOk (ds[i := q])"
proof -
  have "map name (ds[i := q]) = map name ds"
    using assms(2,3) by (simp add: map_update list_update_same_conv)
  moreover have "\<forall>d \<in> set (ds[i := q]). distinctNames d"
    using assms(1,4) by (auto simp: siblingsOk_def dest!: set_update_subset_insert [THEN subsetD])
  ultimately show ?thesis using assms(1) by (simp add: siblingsOk_def)
qed

lemma siblingsOk_trim:
  assumes "siblingsOk ds" "i < length ds"
  shows "siblingsOk (ds[i := setDependencies (ds ! i) (spliceFrom (dependencies (ds ! i)) k)])"
proof (rule siblingsOk_update [OF assms])
  show "name (setDependencies (ds ! i) (spliceFrom (dependencies (ds ! i)) k)) = name (ds ! i)"
    by simp
  have "distinctNames (ds ! i)" using assms by (simp add: siblingsOk_def)
  then have "siblingsOk (dependencies (ds ! i))" by (simp add: distinctNames_iff)
  then show "distinctNames (setDependencies (ds ! i) (spliceFrom (dependencies (ds ! i)) k))"
    by (simp add: distinctNames_iff siblingsOk_spliceFrom)
qed

lemma length_hoistSubDependency: "length ds \<le> length (hoistSubDependency i s ds)"
  by (simp add: hoistSubDependency_def Let_def split: option.splits)

lemma siblingsOk_hoistSubDependency:
  assumes "siblingsOk ds" "i < length ds" "distinctNames s"
  shows "siblingsOk (hoistSubDependency i s ds)"
proof (cases "find (\<lambda>d. name d = name s) ds")
  case None
  then have "siblingsOk (ds @ [s])"
    using assms by (simp add: siblingsOk_snoc find_None_name)
  moreover have "i < length (ds @ [s])" using assms(2) by simp
  ultimately show ?thesis
    using None siblingsOk_trim [of "ds @ [s]" i] by (simp add: hoistSubDependency_def Let_def)
next
  case (Some a)
  then show ?thesis
    using assms siblingsOk_trim [of ds i] by (simp add: hoistSubDependency_def Let_def)
qed

lemma siblingsOk_fold_sub:
  "siblingsOk ds \<Longrightarrow> i < length ds \<Longrightarrow> \<forall>s \<in> set subs. distinctNames s \<Longrightarrow>
   siblingsOk (fold (hoistSubDependency i) subs ds) \<and> length ds \<le> length (fold (hoistSubDependency i) subs ds)"
proof (induction subs arbitrary: ds)
  case Nil
  then show ?case by simp
next
  case (Cons s subs)
  have ok: "siblingsOk (hoistSubDependency i s ds)"
    using Cons.prems by (simp add: siblingsOk_hoistSubDependency)
  have len: "length ds \<le> length (hoistSubDependency i s ds)"
    by (rule length_hoistSubDependency)
  from Cons.IH [OF ok] Cons.prems len show ?case by fastforce
qed

lemma siblingsOk_hoistHardDependency:
  assumes "siblingsOk ds" "i < length ds"
  shows "siblingsOk (hoistHardDependency i ds) \<and> length ds \<le> length (hoistHardDependency i ds)"
proof -
  have "distinctNames (ds ! i)" using assms by (simp add: siblingsOk_def)
  then have "siblingsOk (dependencies (ds ! i))"
    by (simp add: distinctNames_iff)
  then have sub: "\<forall>s \<in> set (dependencies (ds ! i)). distinctNames s"
    unfolding siblingsOk_def by blast
  show ?thesis
    unfolding hoistHardDependency_def by (rule siblingsOk_fold_sub [OF assms sub])
qed

lemma siblingsOk_fold_hard:
  "siblingsOk ds \<Longrightarrow> \<forall>i \<in> set is. i < length ds \<Longrightarrow> siblingsOk (fold hoistHardDependency is ds)"
proof (induction "is" arbitrary: ds)
  case Nil
  then show ?case by simp
next
  case (Cons i "is")
  have step: "siblingsOk (hoistHardDependency i ds) \<and> length ds \<le> length (hoistHardDependency i ds)"
    using Cons.prems by (simp add: siblingsOk_hoistHardDependency)
  then have "\<forall>j \<in> set is. j < length (hoistHardDependency i ds)"
    using Cons.prems(2) by fastforce
  with Cons.IH step show ?case by simp
qed

lemma siblingsOk_hoistAll: "siblingsOk ds \<Longrightarrow> siblingsOk (hoistAll ds)"
  unfolding hoistAll_def by (rule siblingsOk_fold_hard) simp_all

lemma name_optimizePackageTree [simp]: "name (optimizePackageTree p) = name p"
  by (cases p) simp

text \<open>
  C6. If the names of the children of every node of the input tree are pairwise distinct,
  the same holds for every node of the tree that \<open>optimizePackageTree\<close> returns.
\<close>

theorem optimizePackageTree_distinct_siblings:
  "distinctNames t \<Longrightarrow> distinctNames (optimizePackageTree t)"
proof (induction t rule: optimizePackageTree.induct)
  case (1 n r ds)
  have "siblingsOk (map optimizePackageTree ds)"
    unfolding siblingsOk_def using 1 by (auto simp: comp_def)
  then have "siblingsOk (hoistAll (map optimizePackageTree ds))"
    by (rule siblingsOk_hoistAll)
  then show ?case by (simp add: distinctNames_iff)
qed

theorem optimizePackageTree_distinct_siblings_witness:
  "distinctNames (Pkg ''root'' '''' [Pkg ''a'' ''1'' [Pkg ''c'' ''1'' []], Pkg ''b'' ''1'' [Pkg ''c'' ''1'' []]]) \<and>
   distinctNames (optimizePackageTree (Pkg ''root'' '''' [Pkg ''a'' ''1'' [Pkg ''c'' ''1'' []], Pkg ''b'' ''1'' [Pkg ''c'' ''1'' []]])) \<and>
   optimizePackageTree (Pkg ''root'' '''' [Pkg ''a'' ''1'' [Pkg ''c'' ''1'' []], Pkg ''b'' ''1'' [Pkg ''c'' ''1'' []]])
    = Pkg ''root'' '''' [Pkg ''a'' ''1'' [], Pkg ''b'' ''1'' [], Pkg ''c'' ''1'' []]"
proof -
  have d: "distinctNames (Pkg ''root'' '''' [Pkg ''a'' ''1'' [Pkg ''c'' ''1'' []], Pkg ''b'' ''1'' [Pkg ''c'' ''1'' []]])"
    by simp
  have e: "optimizePackageTree (Pkg ''root'' '''' [Pkg ''a'' ''1'' [Pkg ''c'' ''1'' []], Pkg ''b'' ''1'' [Pkg ''c'' ''1'' []]])
    = Pkg ''root'' '''' [Pkg ''a'' ''1'' [], Pkg ''b'' ''1'' [], Pkg ''c'' ''1'' []]"
    by (simp add: hoistAll_def hoistHardDependency_def hoistSubDependency_def spliceFrom_def
        setDependencies_def upt_rec)
  from d optimizePackageTree_distinct_siblings [OF d] e show ?thesis by blast
qed

section \<open>Running a promise\<close>

lemma await_simps [simp]:
  "m s = None \<Longrightarrow> await m k s = None"
  "m s = Some (Inl e, s') \<Longrightarrow> await m k s = Some (Inl e, s')"
  "m s = Some (Inr x, s') \<Longrightarrow> await m k s = k x s'"
  by (simp_all add: await_def)

section \<open>The resolver\<close>

text \<open>
  C5. A descriptor is already satisfied (not volatile) exactly when the available map
  holds its very reference under its name, or its reference is a valid range and the map
  holds, under its name, a reference that satisfies the range. In particular a name that
  the map does not hold is never satisfied.
\<close>

theorem isVolatileDependency_satisfied_iff:
  "(\<not> isVolatileDependency sv d available) =
     (available (fst d) = Some (snd d) \<or>
      (validRange sv (snd d) \<and> (\<exists>v. available (fst d) = Some v \<and> satisfies sv v (snd d)))) \<and>
   (available (fst d) = None \<longrightarrow> isVolatileDependency sv d available)"
  by (cases "available (fst d)") (auto simp: isVolatileDependency_def semver_satisfies_def)

theorem isVolatileDependency_satisfied_iff_witness:
  "Map.empty ''a'' = (None :: string option) \<and>
   isVolatileDependency example_semver (''a'', ''^1.0.0'') Map.empty \<and>
   \<not> isVolatileDependency example_semver (''a'', ''^1.0.0'') [''a'' \<mapsto> ''1.1.0''] \<and>
   \<not> isVolatileDependency example_semver (''a'', ''1.1.0'') [''a'' \<mapsto> ''1.1.0''] \<and>
   isVolatileDependency example_semver (''a'', ''^5.0.0'') [''a'' \<mapsto> ''1.1.0'']"
  using isVolatileDependency_satisfied_iff [of example_semver "(''a'', ''^1.0.0'')" Map.empty]
    isVolatileDependency_satisfied_iff [of example_semver "(''a'', ''^1.0.0'')" "[''a'' \<mapsto> ''1.1.0'']"]
    isVolatileDependency_satisfied_iff [of example_semver "(''a'', ''1.1.0'')" "[''a'' \<mapsto> ''1.1.0'']"]
    isVolatileDependency_satisfied_iff [of example_semver "(''a'', ''^5.0.0'')" "[''a'' \<mapsto> ''1.1.0'']"]
  by (simp add: example_semver_def)

section \<open>The fetcher\<close>

text \<open>
  C7. \<open>fetchPackage\<close> dispatches on the shape of the reference. A reference that starts
  with \<open>/\<close>, \<open>./\<close> or \<open>../\<close> is read from the file system and the outcome of the read
  is returned as it is. Otherwise an exact version makes the function call itself on the
  registry URL of the tarball. Otherwise the reference is fetched with one GET, and a
  response that is not ok is an error whose message quotes the reference.
\<close>

theorem fetchPackage_dispatch:
  "(startsWith ref ''/'' \<or> startsWith ref ''./'' \<or> startsWith ref ''../'' \<longrightarrow>
      fetchPackage sv w (nm, ref) s =
        Some (readFile w (disk s) ref, s\<lparr>requests := requests s @ [ReadFile ref]\<rparr>)) \<and>
   (\<not> (startsWith ref ''/'' \<or> startsWith ref ''./'' \<or> startsWith ref ''../'') \<and>
    valid sv ref \<longrightarrow>
      fetchPackage sv w (nm, ref) s =
        fetchPackage sv w
          (nm, ''https://registry.yarnpkg.com/'' @ nm @ ''/-/'' @ nm @ ''-'' @ ref @ ''.tgz'') s) \<and>
   (\<not> (startsWith ref ''/'' \<or> startsWith ref ''./'' \<or> startsWith ref ''../'') \<and>
    \<not> valid sv ref \<longrightarrow>
      fetchPackage sv w (nm, ref) s =
        Some (case fetch w ref of
                Inl e \<Rightarrow> Inl e
              | Inr response \<Rightarrow>
                  if ok response then Inr (body response)
                  else Inl (Error (''Couldn't fetch package '' @ quoted ref)),
              s\<lparr>requests := requests s @ [HttpGet ref]\<rparr>))"
proof (intro conjI impI)
  assume "startsWith ref ''/'' \<or> startsWith ref ''./'' \<or> startsWith ref ''../''"
  then show "fetchPackage sv w (nm, ref) s =
      Some (readFile w (disk s) ref, s\<lparr>requests := requests s @ [ReadFile ref]\<rparr>)"
    by (subst fetchPackage.simps) (auto simp: fs_readFile_def)
next
  assume "\<not> (startsWith ref ''/'' \<or> startsWith ref ''./'' \<or> startsWith ref ''../'') \<and>
    valid sv ref"
  then show "fetchPackage sv w (nm, ref) s =
      fetchPackage sv w
        (nm, ''https://registry.yarnpkg.com/'' @ nm @ ''/-/'' @ nm @ ''-'' @ ref @ ''.tgz'') s"
    by (subst fetchPackage.simps) (simp add: registryTarball_def)
next
  assume "\<not> (startsWith ref ''/'' \<or> startsWith ref ''./'' \<or> startsWith ref ''../'') \<and>
    \<not> valid sv ref"
  then show "fetchPackage sv w (nm, ref) s =
      Some (case fetch w ref of
              Inl e \<Rightarrow> Inl e
            | Inr response \<Rightarrow>
                if ok response then Inr (body response)
                else Inl (Error (''Couldn't fetch package '' @ quoted ref)),
            s\<lparr>requests := requests s @ [HttpGet ref]\<rparr>)"
    by (subst fetchPackage.simps)
      (simp add: await_def fetchUrl_def rejected_def resolved_def
        fetchErrorMessage_def split: sum.splits)
qed

theorem fetchPackage_dispatch_witness:
  "startsWith ''./local.tgz'' ''./'' \<and>
   fetchPackage example_semver example_world (''b'', ''./local.tgz'') example_state =
     Some (Inr ''tgz b 1.0.0'', example_state\<lparr>requests := [ReadFile ''./local.tgz'']\<rparr>) \<and>
   valid example_semver ''1.0.0'' \<and>
   fetchPackage example_semver example_world (''a'', ''1.0.0'') example_state =
     Some (Inr ''tgz a 1.0.0'',
           example_state\<lparr>requests := [HttpGet ''https://registry.yarnpkg.com/a/-/a-1.0.0.tgz'']\<rparr>) \<and>
   \<not> valid example_semver ''https://example.org/z.tgz'' \<and>
   fetchPackage example_semver example_world (''z'', ''https://example.org/z.tgz'') example_state =
     Some (Inl (Error (''Couldn't fetch package '' @ quoted ''https://example.org/z.tgz'')),
           example_state\<lparr>requests := [HttpGet ''https://example.org/z.tgz'']\<rparr>)"
proof -
  have local: "fetchPackage example_semver example_world (''b'', ''./local.tgz'') example_state =
     Some (Inr ''tgz b 1.0.0'', example_state\<lparr>requests := [ReadFile ''./local.tgz'']\<rparr>)"
    using fetchPackage_dispatch [of "''./local.tgz''" example_semver example_world "''b''" example_state]
    by (simp add: startsWith_def example_world_def example_state_def)
  have url: "fetchPackage example_semver example_world
       (''a'', ''https://registry.yarnpkg.com/a/-/a-1.0.0.tgz'') example_state =
     Some (Inr ''tgz a 1.0.0'',
           example_state\<lparr>requests := [HttpGet ''https://registry.yarnpkg.com/a/-/a-1.0.0.tgz'']\<rparr>)"
    using fetchPackage_dispatch [of "''https://registry.yarnpkg.com/a/-/a-1.0.0.tgz''"
        example_semver example_world "''a''" example_state]
    by (simp add: startsWith_def example_world_def example_state_def example_semver_def)
  have version: "fetchPackage example_semver example_world (''a'', ''1.0.0'') example_state =
     fetchPackage example_semver example_world
       (''a'', ''https://registry.yarnpkg.com/a/-/a-1.0.0.tgz'') example_state"
    using fetchPackage_dispatch [of "''1.0.0''" example_semver example_world "''a''" example_state]
    by (simp add: startsWith_def example_semver_def)
  have missing: "fetchPackage example_semver example_world (''z'', ''https://example.org/z.tgz'')
       example_state =
     Some (Inl (Error (''Couldn't fetch package '' @ quoted ''https://example.org/z.tgz'')),
           example_state\<lparr>requests := [HttpGet ''https://example.org/z.tgz'']\<rparr>)"
    using fetchPackage_dispatch [of "''https://example.org/z.tgz''"
        example_semver example_world "''z''" example_state]
    by (simp add: startsWith_def example_world_def example_state_def example_semver_def)
  show ?thesis
    using local url version missing by (simp add: startsWith_def example_semver_def)
qed

text \<open>
  C9. A reference that needs no pinning (an exact version, or a reference that is no
  valid range, as a URL or a path) comes back unchanged with its name, and the state is
  the one before the call: nothing was requested.
\<close>

theorem getPinnedReference_passthrough:
  "valid sv ref \<or> \<not> validRange sv ref \<Longrightarrow>
   getPinnedReference sv w (nm, ref) s = Some (Inr (nm, ref), s)"
  by (auto simp: getPinnedReference_def resolved_def)

theorem getPinnedReference_passthrough_witness:
  "(valid example_semver ''1.0.0'' \<or> \<not> validRange example_semver ''1.0.0'') \<and>
   getPinnedReference example_semver example_world (''a'', ''1.0.0'') example_state =
     Some (Inr (''a'', ''1.0.0''), example_state) \<and>
   (valid example_semver ''./local.tgz'' \<or> \<not> validRange example_semver ''./local.tgz'') \<and>
   getPinnedReference example_semver example_world (''b'', ''./local.tgz'') example_state =
     Some (Inr (''b'', ''./local.tgz''), example_state)"
proof -
  have v: "valid example_semver ''1.0.0'' \<or> \<not> validRange example_semver ''1.0.0''"
    by (simp add: example_semver_def)
  have p: "valid example_semver ''./local.tgz'' \<or> \<not> validRange example_semver ''./local.tgz''"
    by (simp add: example_semver_def)
  from v p getPinnedReference_passthrough [OF v] getPinnedReference_passthrough [OF p]
  show ?thesis by blast
qed


section \<open>The archive reader\<close>



section \<open>The linker\<close>

text \<open>
  C3. For a dependency whose manifest has at least one \<open>bin\<close> entry, the loop logs the
  destination, makes the \<open>.bin\<close> directory and then fails: with the error of
  \<^verbatim>\<open>mkdirp\<close>, or with the \<^verbatim>\<open>ReferenceError\<close> of the unbound \<open>relative\<close>. No symlink is
  ever created, and the entries after the first are never looked at.
\<close>

theorem linkBins_never_links:
  "linkBins w cwd target ((binName, binPath) # rest) s =
     (case mkdirp w (cwd @ ''/spm_node_modules/.bin'') (disk s) of
        (None, d) \<Rightarrow>
          Some (Inl (ReferenceError ''relative is not defined''),
                s\<lparr>console := console s @ [''bin: '' @ cwd @ ''/spm_node_modules/.bin/'' @ binName],
                  disk := d\<rparr>)
      | (Some e, d) \<Rightarrow>
          Some (Inl e,
                s\<lparr>console := console s @ [''bin: '' @ cwd @ ''/spm_node_modules/.bin/'' @ binName],
                  disk := d\<rparr>))"
  by (simp add: await_def consoleLog_def diskOp_def rejected_def split: prod.splits option.splits)

section \<open>Rejections are passed on\<close>




lemma stateAfter_simps [simp]:
  "m s = Fulfilled x s' \<Longrightarrow> stateAfter m s = s'"
  "m s = Rejected es \<Longrightarrow> stateAfter m s = s"
  "m s = Pending \<Longrightarrow> stateAfter m s = s"
  by (simp_all add: stateAfter_def)














section \<open>An unsatisfied range ends the installation\<close>



section \<open>What the resolution inside the linker changes\<close>

lemma sameLayout_refl [simp]: "sameLayout s s"
  by (simp add: sameLayout_def)















lemma keeps_fulfilled [simp]: "keeps (fulfilled x)"
  by (simp add: keeps_def fulfilled_def)


























subsection \<open>Runs that end the same way from every state\<close>

lemma settles_started:
  "m s = Some (Inr x, s') \<Longrightarrow> settles (started m s) = Some (Inr x)"
  "m s = Some (Inl e, s') \<Longrightarrow> settles (started m s) = Some (Inl [e])"
  by (simp_all add: started_def)






lemma settles_promiseAll_Nil: "settles (promiseAll [] s) = Some (Inr [])"
  by (simp add: fulfilled_def)










subsection \<open>The example world\<close>
















end
